theory Spec2Isabelle
  imports Complex_Main "HOL-Library.Multiset" "HOL-Library.Sublist"
begin

section \<open>Data model\<close>

text \<open>
  The Python of \<^verbatim>\<open>python_examples/strategy_example.py\<close> computes with floats; they are
  idealised as \<^typ>\<open>real\<close> here, so NaN and infinities are outside the model. Rounding is
  modelled where a property depends on it, in the average of the composite (see the
  section on float arithmetic).
  A raised exception is a value: \<open>Inl\<close> of the sum type. Only exceptions of Python's class
  \<^verbatim>\<open>Exception\<close> are modelled, the ones an \<^verbatim>\<open>except Exception\<close> clause sees.
\<close>

datatype error = Exception string

text \<open>
  Modelled from the spec: the type \<^verbatim>\<open>mq.PyInsight\<close> is declared in the binding
  \<^verbatim>\<open>moses_quant\<close>, which is not part of the sources. Its fields are the ones the
  strategies assign; \<open>confidence\<close> may be absent (the composite reads it with
  \<^verbatim>\<open>i.confidence or 0.5\<close>), and \<open>direction\<close> is the string the constructor was given.
\<close>

record insight =
  symbol :: string
  direction :: string
  confidence :: "real option"
  magnitude :: real
  source_model :: string

text \<open>
  The data provider and the calculation engine are external collaborators. They are taken
  as parameters: one function per method the strategies call, which either raises or
  returns a series.
\<close>

record collaborators =
  get_price_history :: "string \<Rightarrow> int \<Rightarrow> error + real list"
  calculate_rsi :: "real list \<Rightarrow> int \<Rightarrow> error + real list"
  calculate_sma :: "real list \<Rightarrow> int \<Rightarrow> error + real list"

text \<open>
  \<^verbatim>\<open>BasePythonAlphaModel\<close> and its subclasses: the fields set by \<^verbatim>\<open>__init__\<close>. The base
  class also sets \<^verbatim>\<open>calculation_engine\<close> and \<^verbatim>\<open>data_provider\<close> to \<^verbatim>\<open>None\<close>; nothing reads
  them.
\<close>

record base_model =
  name :: string

record rsi_model = base_model +
  rsi_period :: int
  overbought :: real
  oversold :: real

record ma_model = base_model +
  fast_period :: int
  slow_period :: int

text \<open>
  A sub-model of the composite is any object with a \<^verbatim>\<open>generate_insights\<close> method: it is
  represented by that method, which returns a list of insights or raises.
\<close>

type_synonym alpha_model = "string list \<Rightarrow> error + insight list"

record composite_model = base_model +
  models :: "alpha_model list"

section \<open>Constructors\<close>

definition RSIAlphaModel_init :: "int \<Rightarrow> real \<Rightarrow> real \<Rightarrow> error + rsi_model" where
  "RSIAlphaModel_init period ob os =
     Inr \<lparr>name = ''RSI_Alpha_Model'', rsi_period = period, overbought = ob, oversold = os\<rparr>"

definition MovingAverageCrossAlphaModel_init :: "int \<Rightarrow> int \<Rightarrow> error + ma_model" where
  "MovingAverageCrossAlphaModel_init fast slow =
     Inr \<lparr>name = ''MA_Cross_Alpha_Model'', fast_period = fast, slow_period = slow\<rparr>"

definition CompositeAlphaModel_init :: "alpha_model list \<Rightarrow> error + composite_model" where
  "CompositeAlphaModel_init ms = Inr \<lparr>name = ''Composite_Alpha_Model'', models = ms\<rparr>"

section \<open>RSIAlphaModel.generate_insights\<close>

text \<open>
  The body of the \<^verbatim>\<open>try\<close> block for one symbol: the insights it appends, or the exception
  a collaborator raised. \<^verbatim>\<open>rsi_values[-1]\<close> is read only when the list is not empty.
\<close>

definition rsi_try :: "rsi_model \<Rightarrow> collaborators \<Rightarrow> string \<Rightarrow> error + insight list" where
  "rsi_try self c symb =
     (case get_price_history c symb 50 of
        Inl e \<Rightarrow> Inl e
      | Inr prices \<Rightarrow>
          if int (length prices) < rsi_period self + 1 then Inr []
          else
            (case calculate_rsi c prices (rsi_period self) of
               Inl e \<Rightarrow> Inl e
             | Inr rsi_values \<Rightarrow>
                 if rsi_values = [] then Inr []
                 else
                   (let latest_rsi = last rsi_values in
                    if latest_rsi > overbought self then
                      Inr [\<lparr>symbol = symb, direction = ''Down'',
                            confidence = Some (min 0.9 ((latest_rsi - overbought self) / 10.0)),
                            magnitude = 1.0, source_model = name self\<rparr>]
                    else if latest_rsi < oversold self then
                      Inr [\<lparr>symbol = symb, direction = ''Up'',
                            confidence = Some (min 0.9 ((oversold self - latest_rsi) / 10.0)),
                            magnitude = 1.0, source_model = name self\<rparr>]
                    else Inr [])))"

text \<open>
  The \<^verbatim>\<open>for\<close> loop: an exception of the body is caught and the loop continues. The calls of
  \<^verbatim>\<open>print\<close> are diagnostic output and are left out. The engine and the data provider are
  constructed once before the loop, outside the \<^verbatim>\<open>try\<close>; the model starts from the
  constructed objects.
\<close>

fun rsi_loop :: "rsi_model \<Rightarrow> collaborators \<Rightarrow> string list \<Rightarrow> insight list \<Rightarrow> insight list" where
  "rsi_loop self c [] insights = insights"
| "rsi_loop self c (symb # rest) insights =
     (case rsi_try self c symb of
        Inl e \<Rightarrow> rsi_loop self c rest insights
      | Inr new \<Rightarrow> rsi_loop self c rest (insights @ new))"

definition rsi_generate_insights ::
  "rsi_model \<Rightarrow> collaborators \<Rightarrow> string list \<Rightarrow> error + insight list" where
  "rsi_generate_insights self c symbols = Inr (rsi_loop self c symbols [])"

section \<open>MovingAverageCrossAlphaModel.generate_insights\<close>

text \<open>
  \<^verbatim>\<open>fast_ma[-1]\<close> and \<^verbatim>\<open>fast_ma[-2]\<close> are read after the check that both series have at least
  two points, so \<open>last\<close> and \<open>last \<circ> butlast\<close> are the values Python reads.
\<close>

definition ma_try :: "ma_model \<Rightarrow> collaborators \<Rightarrow> string \<Rightarrow> error + insight list" where
  "ma_try self c symb =
     (case get_price_history c symb (max (fast_period self) (slow_period self) + 10) of
        Inl e \<Rightarrow> Inl e
      | Inr prices \<Rightarrow>
          if int (length prices) < slow_period self + 2 then Inr []
          else
            (case calculate_sma c prices (fast_period self) of
               Inl e \<Rightarrow> Inl e
             | Inr fast_ma \<Rightarrow>
                 (case calculate_sma c prices (slow_period self) of
                    Inl e \<Rightarrow> Inl e
                  | Inr slow_ma \<Rightarrow>
                      if length fast_ma < 2 \<or> length slow_ma < 2 then Inr []
                      else
                        (let fast_current = last fast_ma;
                             fast_previous = last (butlast fast_ma);
                             slow_current = last slow_ma;
                             slow_previous = last (butlast slow_ma)
                         in
                         if fast_previous \<le> slow_previous \<and> fast_current > slow_current then
                           Inr [\<lparr>symbol = symb, direction = ''Up'', confidence = Some 0.7,
                                 magnitude = 1.0, source_model = name self\<rparr>]
                         else if fast_previous \<ge> slow_previous \<and> fast_current < slow_current then
                           Inr [\<lparr>symbol = symb, direction = ''Down'', confidence = Some 0.7,
                                 magnitude = 1.0, source_model = name self\<rparr>]
                         else Inr []))))"

fun ma_loop :: "ma_model \<Rightarrow> collaborators \<Rightarrow> string list \<Rightarrow> insight list \<Rightarrow> insight list" where
  "ma_loop self c [] insights = insights"
| "ma_loop self c (symb # rest) insights =
     (case ma_try self c symb of
        Inl e \<Rightarrow> ma_loop self c rest insights
      | Inr new \<Rightarrow> ma_loop self c rest (insights @ new))"

definition ma_generate_insights ::
  "ma_model \<Rightarrow> collaborators \<Rightarrow> string list \<Rightarrow> error + insight list" where
  "ma_generate_insights self c symbols = Inr (ma_loop self c symbols [])"

section \<open>CompositeAlphaModel.generate_insights\<close>

text \<open>Collecting the sub-models' insights; no \<^verbatim>\<open>try\<close> here, an exception propagates.\<close>

fun collect_insights :: "alpha_model list \<Rightarrow> string list \<Rightarrow> insight list \<Rightarrow> error + insight list" where
  "collect_insights [] symbols all_insights = Inr all_insights"
| "collect_insights (model # rest) symbols all_insights =
     (case model symbols of
        Inl e \<Rightarrow> Inl e
      | Inr model_insights \<Rightarrow> collect_insights rest symbols (all_insights @ model_insights))"

text \<open>
  \<^verbatim>\<open>insights_by_symbol\<close> is a Python dict, which iterates in insertion order: an association
  list whose keys are in the order of their first appearance.
\<close>

type_synonym insight_dict = "(string \<times> insight list) list"

fun dict_append :: "insight_dict \<Rightarrow> insight \<Rightarrow> insight_dict" where
  "dict_append [] i = [(symbol i, [i])]"
| "dict_append ((k, grp) # d) i =
     (if k = symbol i then (k, grp @ [i]) # d else (k, grp) # dict_append d i)"

fun group_by_symbol :: "insight list \<Rightarrow> insight_dict \<Rightarrow> insight_dict" where
  "group_by_symbol [] insights_by_symbol = insights_by_symbol"
| "group_by_symbol (i # rest) insights_by_symbol =
     group_by_symbol rest (dict_append insights_by_symbol i)"

text \<open>
  \<^verbatim>\<open>i.confidence or 0.5\<close>: Python's \<^verbatim>\<open>or\<close> takes the right operand when the left one is
  falsy, which \<^verbatim>\<open>None\<close> is and the float \<^verbatim>\<open>0.0\<close> is too.
\<close>

definition confidence_or_default :: "insight \<Rightarrow> real" where
  "confidence_or_default i =
     (case confidence i of None \<Rightarrow> 0.5 | Some x \<Rightarrow> if x = 0 then 0.5 else x)"

text \<open>
  One iteration of the last loop: the composite insights appended for one dict entry. The
  division is reached only with a non-empty majority subset. The sum and the quotient are
  exact here; the section on float arithmetic has the same code with every operation
  rounded.
\<close>

definition composite_vote :: "string \<Rightarrow> string \<times> insight list \<Rightarrow> insight list" where
  "composite_vote self_name entry =
     (let symb = fst entry; symbol_insights = snd entry in
      if length symbol_insights \<ge> 2 then
        (let up_insights = filter (\<lambda>i. direction i = ''Up'') symbol_insights;
             down_insights = filter (\<lambda>i. direction i = ''Down'') symbol_insights
         in
         if length up_insights > length down_insights then
           [\<lparr>symbol = symb, direction = ''Up'',
             confidence = Some (sum_list (map confidence_or_default up_insights)
                                / real (length up_insights)),
             magnitude = 1.0, source_model = self_name\<rparr>]
         else if length down_insights > length up_insights then
           [\<lparr>symbol = symb, direction = ''Down'',
             confidence = Some (sum_list (map confidence_or_default down_insights)
                                / real (length down_insights)),
             magnitude = 1.0, source_model = self_name\<rparr>]
         else [])
      else [])"

fun composite_loop :: "string \<Rightarrow> insight_dict \<Rightarrow> insight list \<Rightarrow> insight list" where
  "composite_loop self_name [] composite_insights = composite_insights"
| "composite_loop self_name (entry # rest) composite_insights =
     composite_loop self_name rest (composite_insights @ composite_vote self_name entry)"

definition composite_generate_insights ::
  "composite_model \<Rightarrow> string list \<Rightarrow> error + insight list" where
  "composite_generate_insights self symbols =
     (case collect_insights (models self) symbols [] of
        Inl e \<Rightarrow> Inl e
      | Inr all_insights \<Rightarrow>
          Inr (composite_loop (name self) (group_by_symbol all_insights []) []))"

section \<open>Float arithmetic of the average\<close>

text \<open>
  A float operation returns the exact result rounded to a double. The rounding is a
  parameter \<open>rnd\<close> of the definitions below; \<^verbatim>\<open>sum\<close> adds from the left, starting at 0, and
  rounds every partial sum, and the quotient is rounded once more. With the identity for
  \<open>rnd\<close> they are the definitions of the previous section.
\<close>

definition float_sum :: "(real \<Rightarrow> real) \<Rightarrow> real list \<Rightarrow> real" where
  "float_sum rnd xs = foldl (\<lambda>total x. rnd (total + x)) 0 xs"

definition composite_vote_fp ::
  "(real \<Rightarrow> real) \<Rightarrow> string \<Rightarrow> string \<times> insight list \<Rightarrow> insight list" where
  "composite_vote_fp rnd self_name entry =
     (let symb = fst entry; symbol_insights = snd entry in
      if length symbol_insights \<ge> 2 then
        (let up_insights = filter (\<lambda>i. direction i = ''Up'') symbol_insights;
             down_insights = filter (\<lambda>i. direction i = ''Down'') symbol_insights
         in
         if length up_insights > length down_insights then
           [\<lparr>symbol = symb, direction = ''Up'',
             confidence = Some (rnd (float_sum rnd (map confidence_or_default up_insights)
                                     / real (length up_insights))),
             magnitude = 1.0, source_model = self_name\<rparr>]
         else if length down_insights > length up_insights then
           [\<lparr>symbol = symb, direction = ''Down'',
             confidence = Some (rnd (float_sum rnd (map confidence_or_default down_insights)
                                     / real (length down_insights))),
             magnitude = 1.0, source_model = self_name\<rparr>]
         else [])
      else [])"

fun composite_loop_fp ::
  "(real \<Rightarrow> real) \<Rightarrow> string \<Rightarrow> insight_dict \<Rightarrow> insight list \<Rightarrow> insight list" where
  "composite_loop_fp rnd self_name [] composite_insights = composite_insights"
| "composite_loop_fp rnd self_name (entry # rest) composite_insights =
     composite_loop_fp rnd self_name rest
       (composite_insights @ composite_vote_fp rnd self_name entry)"

definition composite_generate_insights_fp ::
  "(real \<Rightarrow> real) \<Rightarrow> composite_model \<Rightarrow> string list \<Rightarrow> error + insight list" where
  "composite_generate_insights_fp rnd self symbols =
     (case collect_insights (models self) symbols [] of
        Inl e \<Rightarrow> Inl e
      | Inr all_insights \<Rightarrow>
          Inr (composite_loop_fp rnd (name self) (group_by_symbol all_insights []) []))"






section \<open>Auxiliary notions\<close>

text \<open>
  One pass of a strategy's loop body, with the \<^verbatim>\<open>except\<close> clause applied: the insights the
  iteration for one symbol appends to the result.
\<close>

definition rsi_step :: "rsi_model \<Rightarrow> collaborators \<Rightarrow> string \<Rightarrow> insight list" where
  "rsi_step self c symb = (case rsi_try self c symb of Inl e \<Rightarrow> [] | Inr new \<Rightarrow> new)"

definition ma_step :: "ma_model \<Rightarrow> collaborators \<Rightarrow> string \<Rightarrow> insight list" where
  "ma_step self c symb = (case ma_try self c symb of Inl e \<Rightarrow> [] | Inr new \<Rightarrow> new)"

text \<open>The insights of a list that are about one symbol, in their order.\<close>

definition symbol_group :: "string \<Rightarrow> insight list \<Rightarrow> insight list" where
  "symbol_group s xs = filter (\<lambda>i. symbol i = s) xs"

text \<open>
  A collaborator raises while a symbol is processed: the data provider raises, or it
  returns enough prices for the engine to be called and the engine raises.
\<close>

definition rsi_collaborator_fails :: "rsi_model \<Rightarrow> collaborators \<Rightarrow> string \<Rightarrow> bool" where
  "rsi_collaborator_fails self c symb =
     (case get_price_history c symb 50 of
        Inl e \<Rightarrow> True
      | Inr prices \<Rightarrow>
          int (length prices) \<ge> rsi_period self + 1 \<and>
          isl (calculate_rsi c prices (rsi_period self)))"

definition ma_collaborator_fails :: "ma_model \<Rightarrow> collaborators \<Rightarrow> string \<Rightarrow> bool" where
  "ma_collaborator_fails self c symb =
     (case get_price_history c symb (max (fast_period self) (slow_period self) + 10) of
        Inl e \<Rightarrow> True
      | Inr prices \<Rightarrow>
          int (length prices) \<ge> slow_period self + 2 \<and>
          (isl (calculate_sma c prices (fast_period self)) \<or>
           isl (calculate_sma c prices (slow_period self))))"

text \<open>
  The confidence of an insight as the specification reads it: only an absent confidence
  counts as 0.5.
\<close>

definition claimed_confidence :: "insight \<Rightarrow> real" where
  "claimed_confidence i = (case confidence i of None \<Rightarrow> 0.5 | Some x \<Rightarrow> x)"


section \<open>Sample inputs\<close>

text \<open>
  A data provider that knows no symbol \<^verbatim>\<open>DELISTED\<close> and returns a flat history for any
  other, and an engine with a fixed RSI and fixed moving averages (fast period 10).
\<close>

definition demo_history :: "string \<Rightarrow> int \<Rightarrow> error + real list" where
  "demo_history symb n =
     (if symb = ''DELISTED'' then Inl (Exception ''unknown symbol'')
      else Inr (replicate (nat n) 100))"

definition demo_engine :: "real \<Rightarrow> collaborators" where
  "demo_engine v =
     \<lparr>get_price_history = demo_history,
      calculate_rsi = (\<lambda>prices period. Inr [v]),
      calculate_sma = (\<lambda>prices period. if period = 10 then Inr [10, 10, 12] else Inr [11, 11, 11])\<rparr>"

text \<open>
  \<^verbatim>\<open>RSIAlphaModel()\<close> and \<^verbatim>\<open>MovingAverageCrossAlphaModel()\<close> with their default arguments.
\<close>

definition default_rsi :: rsi_model where
  "default_rsi = \<lparr>name = ''RSI_Alpha_Model'', rsi_period = 14, overbought = 70, oversold = 30\<rparr>"

definition default_ma :: ma_model where
  "default_ma = \<lparr>name = ''MA_Cross_Alpha_Model'', fast_period = 10, slow_period = 20\<rparr>"

text \<open>
  A user-written sub-model that returns a fixed list of insights, and composites of two
  and of three of them.
\<close>

definition custom_insight :: "string \<Rightarrow> string \<Rightarrow> real option \<Rightarrow> insight" where
  "custom_insight symb dir conf =
     \<lparr>symbol = symb, direction = dir, confidence = conf, magnitude = 1.0,
      source_model = ''Custom_Alpha_Model''\<rparr>"

definition fixed_model :: "insight list \<Rightarrow> alpha_model" where
  "fixed_model out symbols = Inr out"

definition demo_composite :: "insight list \<Rightarrow> insight list \<Rightarrow> composite_model" where
  "demo_composite xs ys =
     \<lparr>name = ''Composite_Alpha_Model'', models = [fixed_model xs, fixed_model ys]\<rparr>"


lemmas demo_defs = demo_engine_def demo_history_def default_rsi_def
  default_ma_def custom_insight_def fixed_model_def demo_composite_def

section \<open>The loops as list operations\<close>

lemma rsi_loop_concat:
  "rsi_loop self c symbols acc = acc @ concat (map (rsi_step self c) symbols)"
  by (induction symbols arbitrary: acc) (auto simp: rsi_step_def split: sum.splits)

lemma ma_loop_concat:
  "ma_loop self c symbols acc = acc @ concat (map (ma_step self c) symbols)"
  by (induction symbols arbitrary: acc) (auto simp: ma_step_def split: sum.splits)

lemma rsi_step_symbol: "i \<in> set (rsi_step self c s) \<Longrightarrow> symbol i = s"
  by (auto simp: rsi_step_def rsi_try_def Let_def split: sum.splits if_splits)

lemma rsi_step_length: "length (rsi_step self c s) \<le> 1"
  by (auto simp: rsi_step_def rsi_try_def Let_def split: sum.splits if_splits)

lemma ma_step_symbol: "i \<in> set (ma_step self c s) \<Longrightarrow> symbol i = s"
  by (auto simp: ma_step_def ma_try_def Let_def split: sum.splits if_splits)

lemma ma_step_length: "length (ma_step self c s) \<le> 1"
  by (auto simp: ma_step_def ma_try_def Let_def split: sum.splits if_splits)

lemma rsi_generate_append:
  "rsi_generate_insights self c (xs @ ys) =
     Inr (rsi_loop self c xs [] @ rsi_loop self c ys [])"
  by (simp add: rsi_generate_insights_def rsi_loop_concat)

lemma ma_generate_append:
  "ma_generate_insights self c (xs @ ys) =
     Inr (ma_loop self c xs [] @ ma_loop self c ys [])"
  by (simp add: ma_generate_insights_def ma_loop_concat)

lemma rsi_try_fails_iff: "isl (rsi_try self c s) \<longleftrightarrow> rsi_collaborator_fails self c s"
  by (auto simp: rsi_try_def rsi_collaborator_fails_def Let_def split: sum.splits)

lemma ma_try_fails_iff: "isl (ma_try self c s) \<longleftrightarrow> ma_collaborator_fails self c s"
  by (auto simp: ma_try_def ma_collaborator_fails_def Let_def split: sum.splits)

lemma rsi_step_failed: "rsi_collaborator_fails self c bad \<Longrightarrow> rsi_step self c bad = []"
  using rsi_try_fails_iff [of self c bad]
  by (cases "rsi_try self c bad") (simp_all add: rsi_step_def)

lemma ma_step_failed: "ma_collaborator_fails self c bad \<Longrightarrow> ma_step self c bad = []"
  using ma_try_fails_iff [of self c bad]
  by (cases "ma_try self c bad") (simp_all add: ma_step_def)

lemma skip_failed:
  assumes "f bad = []"
  shows "concat (map f (removeAll bad xs)) = concat (map f xs)"
  using assms by (induction xs) auto

lemma rsi_step_value:
  assumes "get_price_history c s 50 = Inr prices"
    and "int (length prices) \<ge> rsi_period self + 1"
    and "calculate_rsi c prices (rsi_period self) = Inr rsi_values"
    and "rsi_values \<noteq> []"
  shows "rsi_step self c s =
    (if last rsi_values > overbought self then
       [\<lparr>symbol = s, direction = ''Down'',
         confidence = Some (min 0.9 ((last rsi_values - overbought self) / 10.0)),
         magnitude = 1.0, source_model = name self\<rparr>]
     else if last rsi_values < oversold self then
       [\<lparr>symbol = s, direction = ''Up'',
         confidence = Some (min 0.9 ((oversold self - last rsi_values) / 10.0)),
         magnitude = 1.0, source_model = name self\<rparr>]
     else [])"
  using assms by (simp add: rsi_step_def rsi_try_def Let_def)

lemma ma_step_value:
  assumes "get_price_history c s (max (fast_period self) (slow_period self) + 10) = Inr prices"
    and "int (length prices) \<ge> slow_period self + 2"
    and "calculate_sma c prices (fast_period self) = Inr (fs @ [fast_prev, fast_cur])"
    and "calculate_sma c prices (slow_period self) = Inr (ss @ [slow_prev, slow_cur])"
  shows "ma_step self c s =
    (if fast_prev \<le> slow_prev \<and> fast_cur > slow_cur then
       [\<lparr>symbol = s, direction = ''Up'', confidence = Some 0.7,
         magnitude = 1.0, source_model = name self\<rparr>]
     else if fast_prev \<ge> slow_prev \<and> fast_cur < slow_cur then
       [\<lparr>symbol = s, direction = ''Down'', confidence = Some 0.7,
         magnitude = 1.0, source_model = name self\<rparr>]
     else [])"
proof -
  have "butlast (fs @ [fast_prev, fast_cur]) = fs @ [fast_prev]"
    and "butlast (ss @ [slow_prev, slow_cur]) = ss @ [slow_prev]"
    by (simp_all add: butlast_append)
  with assms show ?thesis
    by (simp add: ma_step_def ma_try_def Let_def)
qed

lemma subseq_keeps_distinct: "subseq xs ys \<Longrightarrow> distinct ys \<Longrightarrow> distinct xs"
  by (auto simp: subseq_conv_nths)

lemma emitted_subseq:
  assumes sym: "\<And>e i. i \<in> set (f e) \<Longrightarrow> symbol i = k e"
    and len: "\<And>e. length (f e) \<le> 1"
  shows "subseq (map symbol (concat (map f xs))) (map k xs)"
proof (induction xs)
  case Nil
  then show ?case by simp
next
  case (Cons x xs)
  note IH = Cons.IH
  show ?case
  proof (cases "f x")
    case Nil
    with IH show ?thesis by (simp add: list_emb_Cons)
  next
    case fx: (Cons i rest)
    with len [of x] have rest: "rest = []" by simp
    from fx sym [of i x] have "symbol i = k x" by simp
    with fx rest IH show ?thesis by simp
  qed
qed

lemma emitted_count:
  assumes sym: "\<And>e i. i \<in> set (f e) \<Longrightarrow> symbol i = e"
    and len: "\<And>e. length (f e) \<le> 1"
  shows "length (filter (\<lambda>i. symbol i = s) (concat (map f xs))) \<le> count_list xs s"
proof (induction xs)
  case Nil
  then show ?case by simp
next
  case (Cons x xs)
  have "length (filter (\<lambda>i. symbol i = s) (f x)) \<le> (if x = s then 1 else 0)"
  proof (cases "x = s")
    case True
    have "length (filter (\<lambda>i. symbol i = s) (f x)) \<le> 1"
      by (rule le_trans [OF length_filter_le len])
    with True show ?thesis by simp
  next
    case False
    then have "filter (\<lambda>i. symbol i = s) (f x) = []"
      using sym [of _ x] by (auto simp: filter_empty_conv)
    then show ?thesis by simp
  qed
  with Cons show ?case by auto
qed

section \<open>Grouping and voting\<close>

lemma composite_loop_concat:
  "composite_loop n d acc = acc @ concat (map (composite_vote n) d)"
  by (induction d arbitrary: acc) auto

lemma composite_vote_symbol: "i \<in> set (composite_vote n e) \<Longrightarrow> symbol i = fst e"
  by (auto simp: composite_vote_def Let_def split: if_splits)

lemma composite_vote_length: "length (composite_vote n e) \<le> 1"
  by (auto simp: composite_vote_def Let_def)

lemma composite_vote_empty: "composite_vote n (s, []) = []"
  by (simp add: composite_vote_def)

lemma dict_append_keys:
  "map fst (dict_append d i) =
     (if symbol i \<in> set (map fst d) then map fst d else map fst d @ [symbol i])"
  by (induction d i rule: dict_append.induct) auto

lemma dict_append_distinct:
  "distinct (map fst d) \<Longrightarrow> distinct (map fst (dict_append d i))"
  by (simp add: dict_append_keys)

lemma dict_append_lookup:
  "map_of (dict_append d i) s =
     (if s = symbol i then Some ((case map_of d s of None \<Rightarrow> [] | Some g \<Rightarrow> g) @ [i])
      else map_of d s)"
  by (induction d i rule: dict_append.induct) auto

lemma group_by_symbol_distinct:
  "distinct (map fst d) \<Longrightarrow> distinct (map fst (group_by_symbol xs d))"
  by (induction xs arbitrary: d) (auto simp: dict_append_distinct)

lemma group_by_symbol_lookup:
  "map_of (group_by_symbol xs d) s =
     (case map_of d s of
        None \<Rightarrow> if symbol_group s xs = [] then None else Some (symbol_group s xs)
      | Some g \<Rightarrow> Some (g @ symbol_group s xs))"
  by (induction xs arbitrary: d)
     (auto simp: dict_append_lookup symbol_group_def split: option.splits)

lemma filter_votes:
  "distinct (map fst d) \<Longrightarrow>
   filter (\<lambda>i. symbol i = s) (concat (map (composite_vote n) d)) =
     (case map_of d s of None \<Rightarrow> [] | Some g \<Rightarrow> composite_vote n (s, g))"
proof (induction d)
  case Nil
  then show ?case by simp
next
  case (Cons e d)
  obtain k g where e: "e = (k, g)" by (cases e)
  have same: "filter (\<lambda>i. symbol i = s) (composite_vote n (k, g)) =
      (if k = s then composite_vote n (k, g) else [])"
    by (auto simp: filter_empty_conv filter_id_conv dest: composite_vote_symbol)
  show ?case
  proof (cases "k = s")
    case True
    with Cons.prems e have "map_of d s = None"
      by (simp add: map_of_eq_None_iff)
    with Cons e True same show ?thesis by simp
  next
    case False
    with Cons e same show ?thesis by simp
  qed
qed

lemma composite_per_symbol:
  assumes "collect_insights (models self) symbols [] = Inr all_insights"
  shows "\<exists>out. composite_generate_insights self symbols = Inr out \<and>
           filter (\<lambda>i. symbol i = s) out =
             composite_vote (name self) (s, symbol_group s all_insights)"
proof -
  let ?d = "group_by_symbol all_insights []"
  have d: "distinct (map fst ?d)" by (rule group_by_symbol_distinct) simp
  have "filter (\<lambda>i. symbol i = s) (composite_loop (name self) ?d []) =
      composite_vote (name self) (s, symbol_group s all_insights)"
    by (simp add: composite_loop_concat filter_votes [OF d] group_by_symbol_lookup
        composite_vote_empty)
  with assms show ?thesis by (simp add: composite_generate_insights_def)
qed

text \<open>
  What the composite does with a majority: the confidence of the composite insight is the
  mean of \<^const>\<open>confidence_or_default\<close> over the majority subset.
\<close>

lemma composite_majority_rule:
  assumes "collect_insights (models self) symbols [] = Inr all_insights"
    and "length (symbol_group s all_insights) \<ge> 2"
    and "up = filter (\<lambda>i. direction i = ''Up'') (symbol_group s all_insights)"
    and "down = filter (\<lambda>i. direction i = ''Down'') (symbol_group s all_insights)"
  shows "\<exists>out. composite_generate_insights self symbols = Inr out \<and>
     (length up > length down \<longrightarrow> symbol_group s out =
        [\<lparr>symbol = s, direction = ''Up'',
          confidence = Some (sum_list (map confidence_or_default up) / real (length up)),
          magnitude = 1.0, source_model = name self\<rparr>]) \<and>
     (length down > length up \<longrightarrow> symbol_group s out =
        [\<lparr>symbol = s, direction = ''Down'',
          confidence = Some (sum_list (map confidence_or_default down) / real (length down)),
          magnitude = 1.0, source_model = name self\<rparr>])"
  using composite_per_symbol [OF assms(1), of s] assms(2-4)
  by (auto simp: composite_vote_def Let_def symbol_group_def)

section \<open>Independence of the collection order\<close>










section \<open>Rounded sums\<close>





text \<open>
  With exact arithmetic the float definitions are the idealised ones, and for every rounding
  they differ from them in the confidence only.
\<close>

lemma float_sum_exact_acc: "foldl (\<lambda>total x. total + x) a xs = a + sum_list (xs :: real list)"
  by (induction xs arbitrary: a) (simp_all add: add.assoc)

lemma float_sum_exact: "float_sum (\<lambda>x. x) xs = sum_list xs"
  by (simp add: float_sum_def float_sum_exact_acc)

lemma composite_vote_fp_exact: "composite_vote_fp (\<lambda>x. x) n = composite_vote n"
  by (rule ext) (simp add: composite_vote_fp_def composite_vote_def float_sum_exact Let_def)


lemma composite_loop_fp_concat:
  "composite_loop_fp rnd n d acc = acc @ concat (map (composite_vote_fp rnd n) d)"
  by (induction d arbitrary: acc) auto

lemma composite_fp_exact:
  "composite_generate_insights_fp (\<lambda>x. x) self symbols = composite_generate_insights self symbols"
  by (simp add: composite_generate_insights_fp_def composite_generate_insights_def
      composite_loop_fp_concat composite_loop_concat composite_vote_fp_exact
      split: sum.splits)











section \<open>The claims\<close>

subsection \<open>C1: the confidence of a majority insight\<close>

text \<open>
  C1 says that a strict Up (or Down) majority in a symbol's group of at least two insights
  yields one composite insight whose confidence is the arithmetic mean of the confidences
  of the majority subset, an absent confidence counting as 0.5. The code reads each
  confidence with \<^verbatim>\<open>i.confidence or 0.5\<close>, so a confidence of exactly 0.0 is replaced by 0.5
  as well: two sub-models voting Up for BTCUSDT with confidences 0.0 and 1.0 give a
  composite confidence of 0.75, where the mean of the two confidences is 0.5.
\<close>

theorem composite_zero_confidence_average:
  "composite_generate_insights
     (demo_composite [custom_insight ''BTCUSDT'' ''Up'' (Some 0)]
                     [custom_insight ''BTCUSDT'' ''Up'' (Some 1)]) [''BTCUSDT''] =
   Inr [\<lparr>symbol = ''BTCUSDT'', direction = ''Up'', confidence = Some 0.75, magnitude = 1.0,
         source_model = ''Composite_Alpha_Model''\<rparr>] \<and>
   sum_list (map claimed_confidence
      [custom_insight ''BTCUSDT'' ''Up'' (Some 0), custom_insight ''BTCUSDT'' ''Up'' (Some 1)])
     / real (length [custom_insight ''BTCUSDT'' ''Up'' (Some 0), custom_insight ''BTCUSDT'' ''Up'' (Some 1)])
     = 0.5"
  by (simp add: composite_generate_insights_def demo_composite_def fixed_model_def
      custom_insight_def composite_vote_def confidence_or_default_def claimed_confidence_def)

subsection \<open>C2: quorum\<close>

text \<open>
  C2: when a symbol's group of collected sub-model insights has fewer than two insights,
  the composite returns no insight for that symbol, whatever the direction and the
  confidence of the insight in the group.
\<close>

theorem composite_quorum:
  assumes "collect_insights (models self) symbols [] = Inr all_insights"
    and "length (symbol_group s all_insights) < 2"
  shows "\<exists>out. composite_generate_insights self symbols = Inr out \<and> symbol_group s out = []"
  using composite_per_symbol [OF assms(1), of s] assms(2)
  by (auto simp: composite_vote_def Let_def symbol_group_def)

text \<open>
  One sub-model is sure about BTCUSDT (confidence 0.99), the other speaks about ETHUSDT
  only: no composite insight for BTCUSDT.
\<close>

theorem composite_quorum_witness:
  "\<exists>out. composite_generate_insights
            (demo_composite [custom_insight ''BTCUSDT'' ''Up'' (Some 0.99)]
                            [custom_insight ''ETHUSDT'' ''Down'' (Some 0.9)]) [''BTCUSDT'', ''ETHUSDT'']
          = Inr out \<and> symbol_group ''BTCUSDT'' out = []"
  using composite_quorum [of "demo_composite [custom_insight ''BTCUSDT'' ''Up'' (Some 0.99)]
                            [custom_insight ''ETHUSDT'' ''Down'' (Some 0.9)]"
      "[''BTCUSDT'', ''ETHUSDT'']"
      "[custom_insight ''BTCUSDT'' ''Up'' (Some 0.99), custom_insight ''ETHUSDT'' ''Down'' (Some 0.9)]"
      "''BTCUSDT''"]
  by (simp add: demo_composite_def fixed_model_def custom_insight_def symbol_group_def)

subsection \<open>C3: ties\<close>

text \<open>
  C3: when a symbol's group has at least two insights and as many Up as Down insights, the
  composite returns no insight for that symbol.
\<close>

theorem composite_tie_dropped:
  assumes "collect_insights (models self) symbols [] = Inr all_insights"
    and "length (symbol_group s all_insights) \<ge> 2"
    and "length (filter (\<lambda>i. direction i = ''Up'') (symbol_group s all_insights)) =
         length (filter (\<lambda>i. direction i = ''Down'') (symbol_group s all_insights))"
  shows "\<exists>out. composite_generate_insights self symbols = Inr out \<and> symbol_group s out = []"
  using composite_per_symbol [OF assms(1), of s] assms(2,3)
  by (auto simp: composite_vote_def Let_def symbol_group_def)

text \<open>
  One Up and one Down for BTCUSDT: nothing is returned.
\<close>

theorem composite_tie_dropped_witness:
  "\<exists>out. composite_generate_insights
            (demo_composite [custom_insight ''BTCUSDT'' ''Up'' (Some 0.8)]
                            [custom_insight ''BTCUSDT'' ''Down'' (Some 0.6)]) [''BTCUSDT'']
          = Inr out \<and> symbol_group ''BTCUSDT'' out = []"
  using composite_tie_dropped [of "demo_composite [custom_insight ''BTCUSDT'' ''Up'' (Some 0.8)]
                            [custom_insight ''BTCUSDT'' ''Down'' (Some 0.6)]"
      "[''BTCUSDT'']"
      "[custom_insight ''BTCUSDT'' ''Up'' (Some 0.8), custom_insight ''BTCUSDT'' ''Down'' (Some 0.6)]"
      "''BTCUSDT''"]
  by (simp add: demo_composite_def fixed_model_def custom_insight_def symbol_group_def)

subsection \<open>C4: the RSI thresholds\<close>

text \<open>
  C4: the model compares against two thresholds \<open>oversold \<le> overbought\<close>. For a symbol with
  at least \<open>rsi_period + 1\<close> prices and a non-empty RSI series whose latest value is \<open>v\<close>, the
  iteration for that symbol appends exactly one Down insight with confidence
  \<open>min 0.9 ((v - overbought) / 10)\<close> if \<open>v > overbought\<close>, exactly one Up insight with
  confidence \<open>min 0.9 ((oversold - v) / 10)\<close> if \<open>v < oversold\<close>, and nothing if
  \<open>oversold \<le> v \<le> overbought\<close>. The confidence of an emitted insight is never negative and
  never exceeds 0.9. The insights of the symbols before and after it in the list are
  unchanged around it.
\<close>

theorem rsi_threshold_rule:
  assumes "oversold self \<le> overbought self"
    and "get_price_history c s 50 = Inr prices"
    and "int (length prices) \<ge> rsi_period self + 1"
    and "calculate_rsi c prices (rsi_period self) = Inr rsi_values"
    and "rsi_values \<noteq> []"
    and "v = last rsi_values"
    and "rsi_generate_insights self c earlier = Inr out_earlier"
    and "rsi_generate_insights self c later = Inr out_later"
  shows "\<exists>emitted.
     rsi_generate_insights self c (earlier @ s # later) = Inr (out_earlier @ emitted @ out_later) \<and>
     (v > overbought self \<longrightarrow> emitted =
        [\<lparr>symbol = s, direction = ''Down'',
          confidence = Some (min 0.9 ((v - overbought self) / 10.0)),
          magnitude = 1.0, source_model = name self\<rparr>]) \<and>
     (v < oversold self \<longrightarrow> emitted =
        [\<lparr>symbol = s, direction = ''Up'',
          confidence = Some (min 0.9 ((oversold self - v) / 10.0)),
          magnitude = 1.0, source_model = name self\<rparr>]) \<and>
     (oversold self \<le> v \<and> v \<le> overbought self \<longrightarrow> emitted = []) \<and>
     (\<forall>i \<in> set emitted. \<exists>x. confidence i = Some x \<and> 0 \<le> x \<and> x \<le> 0.9)"
proof -
  have gen: "rsi_generate_insights self c (earlier @ s # later) =
      Inr (out_earlier @ rsi_step self c s @ out_later)"
    using assms(7,8) by (simp add: rsi_generate_insights_def rsi_loop_concat)
  show ?thesis
    unfolding gen rsi_step_value [OF assms(2-5)] assms(6) [symmetric]
    using assms(1) by (auto simp: min_def)
qed

text \<open>
  The default model on an RSI of 25: Up with confidence 0.5, after a symbol the provider
  does not know.
\<close>

theorem rsi_threshold_rule_witness:
  "oversold default_rsi \<le> overbought default_rsi \<and>
   get_price_history (demo_engine 25) ''BTCUSDT'' 50 = Inr (replicate 50 100) \<and>
   int (length (replicate 50 (100::real))) \<ge> rsi_period default_rsi + 1 \<and>
   calculate_rsi (demo_engine 25) (replicate 50 100) (rsi_period default_rsi) = Inr [25] \<and>
   rsi_generate_insights default_rsi (demo_engine 25) [''DELISTED'', ''BTCUSDT''] =
     Inr [\<lparr>symbol = ''BTCUSDT'', direction = ''Up'', confidence = Some 0.5, magnitude = 1.0,
           source_model = ''RSI_Alpha_Model''\<rparr>]"
  using rsi_threshold_rule [where c = "demo_engine 25" and s = "''BTCUSDT''"
      and prices = "replicate 50 100" and self = default_rsi and rsi_values = "[25]"
      and v = 25 and earlier = "[''DELISTED'']" and later = "[]"
      and out_earlier = "[]" and out_later = "[]"]
  by (simp add: demo_defs rsi_generate_insights_def rsi_try_def)

subsection \<open>C5: moving-average crosses\<close>

text \<open>
  C5: for a symbol with at least \<open>slow_period + 2\<close> prices whose fast and slow averages end
  in \<open>(fast_prev, fast_cur)\<close> and \<open>(slow_prev, slow_cur)\<close>, the iteration for that symbol
  appends exactly one Up insight with confidence 0.7 when \<open>fast_prev \<le> slow_prev\<close> and
  \<open>fast_cur > slow_cur\<close>, exactly one Down insight with confidence 0.7 when
  \<open>fast_prev \<ge> slow_prev\<close> and \<open>fast_cur < slow_cur\<close>, and nothing otherwise. Equal previous
  values with diverging current values are a cross.
\<close>

theorem ma_cross_rule:
  assumes "get_price_history c s (max (fast_period self) (slow_period self) + 10) = Inr prices"
    and "int (length prices) \<ge> slow_period self + 2"
    and "calculate_sma c prices (fast_period self) = Inr (fs @ [fast_prev, fast_cur])"
    and "calculate_sma c prices (slow_period self) = Inr (ss @ [slow_prev, slow_cur])"
    and "ma_generate_insights self c earlier = Inr out_earlier"
    and "ma_generate_insights self c later = Inr out_later"
  shows "\<exists>emitted.
     ma_generate_insights self c (earlier @ s # later) = Inr (out_earlier @ emitted @ out_later) \<and>
     (fast_prev \<le> slow_prev \<and> fast_cur > slow_cur \<longrightarrow> emitted =
        [\<lparr>symbol = s, direction = ''Up'', confidence = Some 0.7,
          magnitude = 1.0, source_model = name self\<rparr>]) \<and>
     (fast_prev \<ge> slow_prev \<and> fast_cur < slow_cur \<longrightarrow> emitted =
        [\<lparr>symbol = s, direction = ''Down'', confidence = Some 0.7,
          magnitude = 1.0, source_model = name self\<rparr>]) \<and>
     (\<not> (fast_prev \<le> slow_prev \<and> fast_cur > slow_cur) \<and>
      \<not> (fast_prev \<ge> slow_prev \<and> fast_cur < slow_cur) \<longrightarrow> emitted = [])"
proof -
  have gen: "ma_generate_insights self c (earlier @ s # later) =
      Inr (out_earlier @ ma_step self c s @ out_later)"
    using assms(5,6) by (simp add: ma_generate_insights_def ma_loop_concat)
  show ?thesis
    unfolding gen ma_step_value [OF assms(1-4)]
    by auto
qed

text \<open>
  Fast averages 10, 10, 12 against slow averages 11, 11, 11: a golden cross.
\<close>

theorem ma_cross_rule_witness:
  "get_price_history (demo_engine 50) ''BTCUSDT'' 30 = Inr (replicate 30 100) \<and>
   int (length (replicate 30 (100::real))) \<ge> slow_period default_ma + 2 \<and>
   calculate_sma (demo_engine 50) (replicate 30 100) (fast_period default_ma) = Inr ([10] @ [10, 12]) \<and>
   calculate_sma (demo_engine 50) (replicate 30 100) (slow_period default_ma) = Inr ([11] @ [11, 11]) \<and>
   ma_generate_insights default_ma (demo_engine 50) [''BTCUSDT''] =
     Inr [\<lparr>symbol = ''BTCUSDT'', direction = ''Up'', confidence = Some 0.7, magnitude = 1.0,
           source_model = ''MA_Cross_Alpha_Model''\<rparr>]"
  using ma_cross_rule [where c = "demo_engine 50" and s = "''BTCUSDT''"
      and prices = "replicate 30 100" and self = default_ma
      and fs = "[10]" and fast_prev = 10 and fast_cur = 12
      and ss = "[11]" and slow_prev = 11 and slow_cur = 11
      and earlier = "[]" and later = "[]" and out_earlier = "[]" and out_later = "[]"]
  by (simp add: demo_defs ma_generate_insights_def)

subsection \<open>C6: a failing collaborator costs one symbol only\<close>

text \<open>
  C6: when the data provider or the engine raises while a symbol is processed, the call
  of \<^verbatim>\<open>generate_insights\<close> of the RSI model and of the moving-average model still returns,
  and it returns what it returns for the list without that symbol.
\<close>

theorem failure_isolation:
  "(rsi_collaborator_fails rsi c bad \<longrightarrow>
      (\<exists>out. rsi_generate_insights rsi c symbols = Inr out \<and>
             rsi_generate_insights rsi c (removeAll bad symbols) = Inr out)) \<and>
   (ma_collaborator_fails ma c bad \<longrightarrow>
      (\<exists>out. ma_generate_insights ma c symbols = Inr out \<and>
             ma_generate_insights ma c (removeAll bad symbols) = Inr out))"
  by (simp add: rsi_generate_insights_def ma_generate_insights_def rsi_loop_concat
      ma_loop_concat skip_failed rsi_step_failed ma_step_failed)

text \<open>
  The provider raises for DELISTED; the result is the one for BTCUSDT alone.
\<close>

theorem failure_isolation_witness:
  "rsi_collaborator_fails default_rsi (demo_engine 85) ''DELISTED'' \<and>
   rsi_generate_insights default_rsi (demo_engine 85) [''DELISTED'', ''BTCUSDT''] =
     rsi_generate_insights default_rsi (demo_engine 85) [''BTCUSDT''] \<and>
   ma_collaborator_fails default_ma (demo_engine 85) ''DELISTED'' \<and>
   ma_generate_insights default_ma (demo_engine 85) [''DELISTED'', ''BTCUSDT''] =
     ma_generate_insights default_ma (demo_engine 85) [''BTCUSDT'']"
  using failure_isolation [of default_rsi "demo_engine 85" "''DELISTED''"
      "[''DELISTED'', ''BTCUSDT'']" default_ma]
  by (auto simp add: demo_defs rsi_collaborator_fails_def ma_collaborator_fails_def)

subsection \<open>C7: construction with an invalid configuration\<close>

text \<open>
  C7, amended: the constructors check nothing. For every period and every pair of
  thresholds \<^verbatim>\<open>RSIAlphaModel\<close> returns a model holding the values it was given, and so does
  \<^verbatim>\<open>MovingAverageCrossAlphaModel\<close> for every pair of periods; \<^verbatim>\<open>generate_insights\<close> of the
  model returns a list for every symbol list.
\<close>

theorem constructors_accept_every_configuration:
  "RSIAlphaModel_init period ob os =
     Inr \<lparr>name = ''RSI_Alpha_Model'', rsi_period = period, overbought = ob, oversold = os\<rparr> \<and>
   MovingAverageCrossAlphaModel_init fast slow =
     Inr \<lparr>name = ''MA_Cross_Alpha_Model'', fast_period = fast, slow_period = slow\<rparr> \<and>
   (\<exists>m out. RSIAlphaModel_init period ob os = Inr m \<and> rsi_generate_insights m c symbols = Inr out) \<and>
   (\<exists>m out. MovingAverageCrossAlphaModel_init fast slow = Inr m \<and>
            ma_generate_insights m c symbols = Inr out)"
  by (simp add: RSIAlphaModel_init_def MovingAverageCrossAlphaModel_init_def
      rsi_generate_insights_def ma_generate_insights_def)

text \<open>
  C7 as stated fails: thresholds the wrong way round, a negative RSI period and
  non-positive averaging periods are all accepted.
\<close>

theorem constructors_accept_invalid_counterexample:
  "RSIAlphaModel_init 14 30 70 =
     Inr \<lparr>name = ''RSI_Alpha_Model'', rsi_period = 14, overbought = 30, oversold = 70\<rparr> \<and>
   RSIAlphaModel_init (- 1) 70 30 =
     Inr \<lparr>name = ''RSI_Alpha_Model'', rsi_period = - 1, overbought = 70, oversold = 30\<rparr> \<and>
   MovingAverageCrossAlphaModel_init 0 (- 5) =
     Inr \<lparr>name = ''MA_Cross_Alpha_Model'', fast_period = 0, slow_period = - 5\<rparr>"
  by (simp add: RSIAlphaModel_init_def MovingAverageCrossAlphaModel_init_def)

subsection \<open>C8: at most one insight per symbol\<close>

text \<open>
  C8, amended: the RSI model and the moving-average model return at most one insight per
  occurrence of a symbol in the input list, hence no symbol twice when the input list has
  no symbol twice; the composite returns no symbol twice for every input list.
\<close>

theorem one_insight_per_symbol:
  "(\<exists>out. rsi_generate_insights rsi c symbols = Inr out \<and>
          length (symbol_group s out) \<le> count_list symbols s \<and>
          (distinct symbols \<longrightarrow> distinct (map symbol out))) \<and>
   (\<exists>out. ma_generate_insights ma c symbols = Inr out \<and>
          length (symbol_group s out) \<le> count_list symbols s \<and>
          (distinct symbols \<longrightarrow> distinct (map symbol out))) \<and>
   (composite_generate_insights cm symbols = Inr composite_out \<longrightarrow>
      distinct (map symbol composite_out))"
proof (intro conjI)
  have "subseq (map symbol (concat (map (rsi_step rsi c) symbols))) (map (\<lambda>x. x) symbols)"
    by (rule emitted_subseq) (erule rsi_step_symbol, rule rsi_step_length)
  then have "distinct symbols \<longrightarrow> distinct (map symbol (concat (map (rsi_step rsi c) symbols)))"
    by (auto dest: subseq_keeps_distinct)
  moreover have "length (symbol_group s (concat (map (rsi_step rsi c) symbols))) \<le> count_list symbols s"
    unfolding symbol_group_def
    by (rule emitted_count) (erule rsi_step_symbol, rule rsi_step_length)
  ultimately show "\<exists>out. rsi_generate_insights rsi c symbols = Inr out \<and>
          length (symbol_group s out) \<le> count_list symbols s \<and>
          (distinct symbols \<longrightarrow> distinct (map symbol out))"
    by (simp add: rsi_generate_insights_def rsi_loop_concat)
next
  have "subseq (map symbol (concat (map (ma_step ma c) symbols))) (map (\<lambda>x. x) symbols)"
    by (rule emitted_subseq) (erule ma_step_symbol, rule ma_step_length)
  then have "distinct symbols \<longrightarrow> distinct (map symbol (concat (map (ma_step ma c) symbols)))"
    by (auto dest: subseq_keeps_distinct)
  moreover have "length (symbol_group s (concat (map (ma_step ma c) symbols))) \<le> count_list symbols s"
    unfolding symbol_group_def
    by (rule emitted_count) (erule ma_step_symbol, rule ma_step_length)
  ultimately show "\<exists>out. ma_generate_insights ma c symbols = Inr out \<and>
          length (symbol_group s out) \<le> count_list symbols s \<and>
          (distinct symbols \<longrightarrow> distinct (map symbol out))"
    by (simp add: ma_generate_insights_def ma_loop_concat)
next
  show "composite_generate_insights cm symbols = Inr composite_out \<longrightarrow>
      distinct (map symbol composite_out)"
  proof
    assume a: "composite_generate_insights cm symbols = Inr composite_out"
    then obtain xs where out: "composite_out = composite_loop (name cm) (group_by_symbol xs []) []"
      by (auto simp: composite_generate_insights_def split: sum.splits)
    have d: "distinct (map fst (group_by_symbol xs []))"
      by (rule group_by_symbol_distinct) simp
    have "subseq (map symbol (concat (map (composite_vote (name cm)) (group_by_symbol xs []))))
        (map fst (group_by_symbol xs []))"
      by (rule emitted_subseq) (erule composite_vote_symbol, rule composite_vote_length)
    with d show "distinct (map symbol composite_out)"
      unfolding out composite_loop_concat by (auto dest: subseq_keeps_distinct)
  qed
qed

text \<open>
  Two different symbols for the two strategies, and a composite of two sub-models that
  agree on BTCUSDT.
\<close>

theorem one_insight_per_symbol_witness:
  "distinct [''BTCUSDT'', ''ETHUSDT''] \<and>
   (\<exists>out. rsi_generate_insights default_rsi (demo_engine 85) [''BTCUSDT'', ''ETHUSDT''] = Inr out \<and>
          distinct (map symbol out)) \<and>
   (\<exists>out. ma_generate_insights default_ma (demo_engine 85) [''BTCUSDT'', ''ETHUSDT''] = Inr out \<and>
          distinct (map symbol out)) \<and>
   composite_generate_insights
       (demo_composite [custom_insight ''BTCUSDT'' ''Up'' (Some 0.8)]
                       [custom_insight ''BTCUSDT'' ''Up'' (Some 0.6)]) [''BTCUSDT'', ''ETHUSDT''] =
     Inr [\<lparr>symbol = ''BTCUSDT'', direction = ''Up'', confidence = Some 0.7, magnitude = 1.0,
           source_model = ''Composite_Alpha_Model''\<rparr>] \<and>
   distinct (map symbol [\<lparr>symbol = ''BTCUSDT'', direction = ''Up'', confidence = Some 0.7,
           magnitude = 1.0, source_model = ''Composite_Alpha_Model''\<rparr>])"
  using one_insight_per_symbol [of default_rsi "demo_engine 85" "[''BTCUSDT'', ''ETHUSDT'']"
      "''BTCUSDT''" default_ma
      "demo_composite [custom_insight ''BTCUSDT'' ''Up'' (Some 0.8)]
                       [custom_insight ''BTCUSDT'' ''Up'' (Some 0.6)]"
      "[\<lparr>symbol = ''BTCUSDT'', direction = ''Up'', confidence = Some 0.7, magnitude = 1.0,
           source_model = ''Composite_Alpha_Model''\<rparr>]"]
  by (simp add: demo_defs composite_generate_insights_def composite_vote_def
      confidence_or_default_def rsi_generate_insights_def rsi_try_def
      ma_generate_insights_def ma_try_def)

text \<open>
  C8 as stated fails for a list that names a symbol twice: the loop processes each
  occurrence and the RSI model returns two insights for BTCUSDT.
\<close>

theorem rsi_duplicate_symbol_counterexample:
  "rsi_generate_insights default_rsi (demo_engine 85) [''BTCUSDT'', ''BTCUSDT''] =
     Inr [\<lparr>symbol = ''BTCUSDT'', direction = ''Down'', confidence = Some 0.9, magnitude = 1.0,
           source_model = ''RSI_Alpha_Model''\<rparr>,
          \<lparr>symbol = ''BTCUSDT'', direction = ''Down'', confidence = Some 0.9, magnitude = 1.0,
           source_model = ''RSI_Alpha_Model''\<rparr>]"
  by (simp add: demo_defs rsi_generate_insights_def rsi_try_def)

subsection \<open>C9: the composite result and the collection order\<close>




subsection \<open>C10: the result follows the order of the input list\<close>

text \<open>
  C10: for the RSI model and the moving-average model, the result for a list \<open>xs @ ys\<close> is
  the result for \<open>xs\<close> followed by the result for \<open>ys\<close>, and the symbols of a result are a
  subsequence of the input list: an insight from an earlier occurrence of a symbol comes
  before an insight from a later one.
\<close>

theorem insights_follow_input_order:
  "(\<exists>out1 out2. rsi_generate_insights rsi c xs = Inr out1 \<and>
        rsi_generate_insights rsi c ys = Inr out2 \<and>
        rsi_generate_insights rsi c (xs @ ys) = Inr (out1 @ out2) \<and>
        subseq (map symbol out1) xs) \<and>
   (\<exists>out1 out2. ma_generate_insights ma c xs = Inr out1 \<and>
        ma_generate_insights ma c ys = Inr out2 \<and>
        ma_generate_insights ma c (xs @ ys) = Inr (out1 @ out2) \<and>
        subseq (map symbol out1) xs)"
proof -
  have "subseq (map symbol (concat (map (rsi_step rsi c) xs))) (map (\<lambda>x. x) xs)"
    by (rule emitted_subseq) (erule rsi_step_symbol, rule rsi_step_length)
  moreover have "subseq (map symbol (concat (map (ma_step ma c) xs))) (map (\<lambda>x. x) xs)"
    by (rule emitted_subseq) (erule ma_step_symbol, rule ma_step_length)
  ultimately show ?thesis
    by (simp add: rsi_generate_insights_def ma_generate_insights_def rsi_loop_concat
        ma_loop_concat)
qed

end
